theory Spec2Isabelle
  imports Main
begin

section \<open>Data model of app.py\<close>

text \<open>
  The program works on an OWL ontology through owlready2. Classes are referred to by
  name (\<open>onto.Viande\<close>, \<open>onto.ProduitAnimal\<close>, ...). The classes the code names are
  constructors of \<open>cls\<close>; any other class of the ontology file is \<open>OtherClass\<close>.
\<close>

datatype cls =
    Viande | ProduitMarin | ProduitLaitier | Oeuf
  | CerealeAvecGluten | Cereale | Fruit | Legumineuse | Oleagineux
  | ProduitAnimal | Ingredient | Recette
  | RecetteCarnee | RecetteVegane | RecetteVegetarienne | RecetteSansGluten
  | OtherClass string

text \<open>An object property is known by its name.\<close>

type_synonym property = string

text \<open>
  An ingredient individual: its name and the named classes of its \<open>is_a\<close> list
  (\<open>onto.Viande("Poulet")\<close> has name \<open>Poulet\<close> and classes \<open>[Viande]\<close>).
\<close>

record ingredient =
  name :: string
  ing_is_a :: "cls list"

text \<open>
  The entries of an individual's \<open>is_a\<close> list: a named class or a class construct.
  \<open>Restriction p ONLY (OneOf xs)\<close> is what \<open>p.only(OneOf(xs))\<close> builds.
\<close>

datatype restriction_type = R_SOME | ONLY | R_VALUE | R_HAS_SELF | R_EXACTLY | R_MIN | R_MAX

datatype class_expr =
    Named cls
  | Restriction property restriction_type class_expr
  | OneOf "ingredient list"
  | Not class_expr
  | And "class_expr list"
  | Or "class_expr list"

record recette =
  recette_name :: string
  is_a :: "class_expr list"
  aPourIngredient :: "ingredient list"

text \<open>
  The ontology file is not part of the sources, so what the code reads from it is a
  parameter: \<open>ancestors c\<close> lists the strict superclasses of \<open>c\<close>, and
  \<open>onto_aPourIngredient\<close> is the result of the lookup \<open>onto.aPourIngredient\<close>, which is
  \<open>None\<close> when the ontology declares no such property.
\<close>

record ontology =
  ancestors :: "cls \<Rightarrow> cls list"
  onto_aPourIngredient :: "property option"

text \<open>The exception raised by a method call on \<open>None\<close>.\<close>

datatype error = AttributeError

text \<open>
  The labels of \<open>get_inferred_types\<close>. The source uses string literals with an emoji; the
  four labels given from the reasoner's classes have no suffix, the four fallback labels
  end in \<open>L\<close>.
\<close>

datatype label =
    Carnee | Vegane | Vegetarienne | SansGluten
  | CarneeL | VeganeL | VegetarienneL | SansGlutenL

section \<open>Class membership\<close>

text \<open>\<open>isinstance(x, C)\<close>: one of the named classes of \<open>x\<close> is \<open>C\<close> or below \<open>C\<close>.\<close>

definition issubclass :: "ontology \<Rightarrow> cls \<Rightarrow> cls \<Rightarrow> bool" where
  "issubclass onto c C = (c = C \<or> C \<in> set (ancestors onto c))"

definition isinstance :: "ontology \<Rightarrow> ingredient \<Rightarrow> cls \<Rightarrow> bool" where
  "isinstance onto ing C = list_ex (\<lambda>c. issubclass onto c C) (ing_is_a ing)"

fun named_classes :: "class_expr list \<Rightarrow> cls list" where
  "named_classes [] = []"
| "named_classes (Named c # xs) = c # named_classes xs"
| "named_classes (_ # xs) = named_classes xs"

definition isinstance_recette :: "ontology \<Rightarrow> recette \<Rightarrow> cls \<Rightarrow> bool" where
  "isinstance_recette onto r C =
     list_ex (\<lambda>c. issubclass onto c C) (named_classes (is_a r))"

section \<open>Classification: get_inferred_types\<close>

text \<open>Lines 153 to 160: the labels read from the classes the reasoner gave the recipe.\<close>

definition reasoner_types :: "recette \<Rightarrow> ontology \<Rightarrow> label list" where
  "reasoner_types r onto =
     (if isinstance_recette onto r RecetteCarnee then [Carnee] else []) @
     (if isinstance_recette onto r RecetteVegane then [Vegane] else []) @
     (if isinstance_recette onto r RecetteVegetarienne then [Vegetarienne] else []) @
     (if isinstance_recette onto r RecetteSansGluten then [SansGluten] else [])"

text \<open>Lines 164 to 177: the manual inference from the ingredient list.\<close>

definition fallback_types :: "recette \<Rightarrow> ontology \<Rightarrow> label list" where
  "fallback_types r onto =
     (let ingredients = aPourIngredient r;
          has_animal = list_ex (\<lambda>ing. isinstance onto ing ProduitAnimal) ingredients;
          has_meat_or_fish =
            list_ex (\<lambda>ing. isinstance onto ing Viande \<or> isinstance onto ing ProduitMarin)
              ingredients;
          has_meat = list_ex (\<lambda>ing. isinstance onto ing Viande) ingredients;
          has_gluten = list_ex (\<lambda>ing. isinstance onto ing CerealeAvecGluten) ingredients
      in (if has_meat then [CarneeL] else []) @
         (if \<not> has_animal then [VeganeL] else []) @
         (if \<not> has_meat_or_fish then [VegetarienneL] else []) @
         (if \<not> has_gluten then [SansGlutenL] else []))"

definition get_inferred_types :: "recette \<Rightarrow> ontology \<Rightarrow> label list" where
  "get_inferred_types r onto =
     (let types = reasoner_types r onto
      in if types = [] then types @ fallback_types r onto else types)"

section \<open>Closure axioms\<close>

text \<open>
  The test of line 97, \<open>isinstance(ax, Restriction) and ax.property == onto.aPourIngredient\<close>:
  a restriction of any type whose property is the one the ontology gives for
  \<open>aPourIngredient\<close>. A restriction always has a property, so the comparison with
  \<open>None\<close> is false.
\<close>

fun is_aPourIngredient_restriction :: "ontology \<Rightarrow> class_expr \<Rightarrow> bool" where
  "is_aPourIngredient_restriction onto (Restriction p t v) =
     (onto_aPourIngredient onto = Some p)"
| "is_aPourIngredient_restriction onto _ = False"

text \<open>
  The loop of lines 94 to 102 runs over a copy of \<open>is_a\<close> (first argument) and removes
  from the list itself (second argument). \<open>list.remove\<close> deletes the first equal entry;
  where there is none it raises, which the \<open>except\<close> clause ignores: \<open>remove1\<close> leaves
  the list as it is there.
\<close>

fun remove_loop :: "ontology \<Rightarrow> class_expr list \<Rightarrow> class_expr list \<Rightarrow> class_expr list" where
  "remove_loop onto [] cur = cur"
| "remove_loop onto (ax # axs) cur =
     remove_loop onto axs
       (if is_aPourIngredient_restriction onto ax then remove1 ax cur else cur)"

definition remove_existing_aPourIngredient_closure :: "recette \<Rightarrow> ontology \<Rightarrow> recette" where
  "remove_existing_aPourIngredient_closure r onto =
     r\<lparr>is_a := remove_loop onto (is_a r) (is_a r)\<rparr>"

text \<open>
  \<open>onto.aPourIngredient.only(enumeration)\<close>: on a declared property it builds the
  restriction; on \<open>None\<close> the method call raises.
\<close>

definition only :: "property option \<Rightarrow> class_expr \<Rightarrow> error + class_expr" where
  "only p enumeration =
     (case p of None \<Rightarrow> Inl AttributeError
      | Some q \<Rightarrow> Inr (Restriction q ONLY enumeration))"

text \<open>
  \<open>apply_closure_to_recipe\<close> returns the recipe as the call leaves it, and the boolean the
  source returns. The \<open>try\<close> block is the \<open>case\<close>: an exception gives \<open>False\<close> and
  appends nothing.
\<close>

definition apply_closure_to_recipe :: "recette \<Rightarrow> ontology \<Rightarrow> recette \<times> bool" where
  "apply_closure_to_recipe r onto =
     (let ingredients = aPourIngredient r;
          r1 = remove_existing_aPourIngredient_closure r onto
      in if ingredients = [] then (r1, False)
         else (case only (onto_aPourIngredient onto) (OneOf ingredients) of
                 Inr restriction \<Rightarrow> (r1\<lparr>is_a := is_a r1 @ [restriction]\<rparr>, True)
               | Inl e \<Rightarrow> (r1, False)))"

text \<open>
  \<open>apply_closure_to_all_recipes\<close>: the list is \<open>list(onto.Recette.instances())\<close>; the
  result is the recipes as the loop leaves them, and the count.
\<close>

fun apply_closure_loop :: "ontology \<Rightarrow> recette list \<Rightarrow> int \<Rightarrow> recette list \<times> int" where
  "apply_closure_loop onto [] count = ([], count)"
| "apply_closure_loop onto (r # rs) count =
     (case apply_closure_to_recipe r onto of
        (r', ok) \<Rightarrow>
          (case apply_closure_loop onto rs (if ok then count + 1 else count) of
             (rs', n) \<Rightarrow> (r' # rs', n)))"

definition apply_closure_to_all_recipes :: "ontology \<Rightarrow> recette list \<Rightarrow> recette list \<times> int" where
  "apply_closure_to_all_recipes onto recettes = apply_closure_loop onto recettes 0"

section \<open>Compatibility with a profile: check_compatibility\<close>

text \<open>
  \<open>str.lower\<close> on the letters A to Z; every other character is kept. Names are taken
  to be ASCII.
\<close>

definition lower_char :: "char \<Rightarrow> char" where
  "lower_char c =
     (case map_of (zip ''ABCDEFGHIJKLMNOPQRSTUVWXYZ'' ''abcdefghijklmnopqrstuvwxyz'') c of
        Some d \<Rightarrow> d
      | None \<Rightarrow> c)"

definition lower :: "string \<Rightarrow> string" where
  "lower s = map lower_char s"

text \<open>\<open>sub in s\<close> for strings: \<open>sub\<close> occurs in \<open>s\<close> as a contiguous run.\<close>

fun contains :: "string \<Rightarrow> string \<Rightarrow> bool" where
  "contains sub [] = (sub = [])"
| "contains sub (c # cs) = (take (length sub) (c # cs) = sub \<or> contains sub cs)"

definition check_compatibility :: "recette \<Rightarrow> string \<Rightarrow> ontology \<Rightarrow> bool" where
  "check_compatibility r profile_name onto =
     (let ingredients = aPourIngredient r
      in if profile_name = ''Vegetarien'' then
           \<not> list_ex (\<lambda>ing. isinstance onto ing Viande \<or> isinstance onto ing ProduitMarin)
               ingredients
         else if profile_name = ''Vegane'' then
           \<not> list_ex (\<lambda>ing. isinstance onto ing ProduitAnimal) ingredients
         else if profile_name \<in> set [''SansGluten'', ''AllergieGluten''] then
           \<not> list_ex (\<lambda>ing. isinstance onto ing CerealeAvecGluten) ingredients
         else if profile_name = ''AllergieLactose'' then
           \<not> list_ex (\<lambda>ing. isinstance onto ing ProduitLaitier) ingredients
         else if profile_name = ''AllergieArachide'' then
           \<not> list_ex (\<lambda>ing. isinstance onto ing Oleagineux \<and>
                             contains ''arachide'' (lower (name ing))) ingredients
         else True)"

section \<open>The hierarchy and the default data\<close>

text \<open>
  Modelled from the spec: the type hierarchy of the ontology file, which is not among the
  sources. AnimalProduct is the union of Meat, Seafood, Dairy and Egg, and GrainWithGluten
  is a kind of Grain; the recipe categories are kinds of recipe.
\<close>

fun spec_ancestors :: "cls \<Rightarrow> cls list" where
  "spec_ancestors Viande = [ProduitAnimal, Ingredient]"
| "spec_ancestors ProduitMarin = [ProduitAnimal, Ingredient]"
| "spec_ancestors ProduitLaitier = [ProduitAnimal, Ingredient]"
| "spec_ancestors Oeuf = [ProduitAnimal, Ingredient]"
| "spec_ancestors CerealeAvecGluten = [Cereale, Ingredient]"
| "spec_ancestors Cereale = [Ingredient]"
| "spec_ancestors Fruit = [Ingredient]"
| "spec_ancestors Legumineuse = [Ingredient]"
| "spec_ancestors Oleagineux = [Ingredient]"
| "spec_ancestors ProduitAnimal = [Ingredient]"
| "spec_ancestors RecetteCarnee = [Recette]"
| "spec_ancestors RecetteVegane = [Recette]"
| "spec_ancestors RecetteVegetarienne = [Recette]"
| "spec_ancestors RecetteSansGluten = [Recette]"
| "spec_ancestors _ = []"

definition spec_onto :: ontology where
  "spec_onto = \<lparr>ancestors = spec_ancestors, onto_aPourIngredient = Some ''aPourIngredient''\<rparr>"

text \<open>An ontology that declares the classes but not the property.\<close>

definition onto_without_property :: ontology where
  "onto_without_property = \<lparr>ancestors = spec_ancestors, onto_aPourIngredient = None\<rparr>"

text \<open>The ingredients and recipes of \<open>initialize_default_data\<close>.\<close>

definition poulet :: ingredient where
  "poulet = \<lparr>name = ''Poulet'', ing_is_a = [Viande]\<rparr>"

definition saumon :: ingredient where
  "saumon = \<lparr>name = ''Saumon'', ing_is_a = [ProduitMarin]\<rparr>"

definition lait :: ingredient where
  "lait = \<lparr>name = ''Lait'', ing_is_a = [ProduitLaitier]\<rparr>"

definition fromage :: ingredient where
  "fromage = \<lparr>name = ''Fromage'', ing_is_a = [ProduitLaitier]\<rparr>"

definition tomate :: ingredient where
  "tomate = \<lparr>name = ''Tomate'', ing_is_a = [Fruit]\<rparr>"

definition pomme :: ingredient where
  "pomme = \<lparr>name = ''Pomme'', ing_is_a = [Fruit]\<rparr>"

definition riz :: ingredient where
  "riz = \<lparr>name = ''Riz'', ing_is_a = [Cereale]\<rparr>"

definition farine :: ingredient where
  "farine = \<lparr>name = ''Farine'', ing_is_a = [CerealeAvecGluten]\<rparr>"

definition lentilles :: ingredient where
  "lentilles = \<lparr>name = ''Lentilles'', ing_is_a = [Legumineuse]\<rparr>"

definition amandes :: ingredient where
  "amandes = \<lparr>name = ''Amandes'', ing_is_a = [Oleagineux]\<rparr>"

definition poulet_roti :: recette where
  "poulet_roti =
     \<lparr>recette_name = ''PouletRoti'', is_a = [Named Recette], aPourIngredient = [poulet, tomate]\<rparr>"

definition salade_lentilles :: recette where
  "salade_lentilles =
     \<lparr>recette_name = ''SaladeLentilles'', is_a = [Named Recette],
      aPourIngredient = [lentilles, tomate, pomme]\<rparr>"

definition gateau_chocolat :: recette where
  "gateau_chocolat =
     \<lparr>recette_name = ''GateauChocolat'', is_a = [Named Recette],
      aPourIngredient = [farine, lait, fromage]\<rparr>"

definition saumon_grille :: recette where
  "saumon_grille =
     \<lparr>recette_name = ''SaumonGrille'', is_a = [Named Recette],
      aPourIngredient = [saumon, riz]\<rparr>"

lemmas default_data_defs =
  poulet_def saumon_def lait_def fromage_def tomate_def pomme_def riz_def farine_def
  lentilles_def amandes_def poulet_roti_def salade_lentilles_def gateau_chocolat_def
  saumon_grille_def

lemmas membership_defs = isinstance_def isinstance_recette_def issubclass_def spec_onto_def

section \<open>Removing the old closure\<close>

lemma remove_loop_filter:
  "filter (is_aPourIngredient_restriction onto) cur =
     filter (is_aPourIngredient_restriction onto) axs \<Longrightarrow>
   remove_loop onto axs cur = filter (\<lambda>x. \<not> is_aPourIngredient_restriction onto x) cur"
proof (induction axs arbitrary: cur)
  case Nil
  then have "\<forall>x \<in> set cur. \<not> is_aPourIngredient_restriction onto x"
    by (simp add: filter_empty_conv)
  then show ?case by simp
next
  case (Cons ax axs)
  show ?case
  proof (cases "is_aPourIngredient_restriction onto ax")
    case True
    let ?P = "is_aPourIngredient_restriction onto"
    have "filter ?P (remove1 ax cur) = remove1 ax (filter ?P cur)"
      by (rule filter_remove1)
    also have "\<dots> = filter ?P axs"
      using Cons.prems True by simp
    finally have inv: "filter ?P (remove1 ax cur) = filter ?P axs" .
    have "filter (\<lambda>x. \<not> ?P x) (remove1 ax cur) = remove1 ax (filter (\<lambda>x. \<not> ?P x) cur)"
      by (rule filter_remove1)
    also have "\<dots> = filter (\<lambda>x. \<not> ?P x) cur"
      using True by (simp add: remove1_idem)
    finally have keep: "filter (\<lambda>x. \<not> ?P x) (remove1 ax cur) = filter (\<lambda>x. \<not> ?P x) cur" .
    show ?thesis
      using True Cons.IH [OF inv] keep by simp
  next
    case False
    then show ?thesis
      using Cons.IH [of cur] Cons.prems by simp
  qed
qed

lemma is_a_remove_existing:
  "is_a (remove_existing_aPourIngredient_closure r onto) =
     filter (\<lambda>x. \<not> is_aPourIngredient_restriction onto x) (is_a r)"
  by (simp add: remove_existing_aPourIngredient_closure_def remove_loop_filter)

lemma aPourIngredient_remove_existing:
  "aPourIngredient (remove_existing_aPourIngredient_closure r onto) = aPourIngredient r"
  by (simp add: remove_existing_aPourIngredient_closure_def)

lemma contains_iff: "contains sub s \<longleftrightarrow> (\<exists>ps ss. s = ps @ sub @ ss)"
proof (induction s)
  case Nil
  then show ?case by auto
next
  case (Cons c cs)
  show ?case
  proof
    assume "contains sub (c # cs)"
    then consider "take (length sub) (c # cs) = sub" | "contains sub cs" by auto
    then show "\<exists>ps ss. c # cs = ps @ sub @ ss"
    proof cases
      case 1
      then have "c # cs = [] @ sub @ drop (length sub) (c # cs)"
        by (metis append_Nil append_take_drop_id)
      then show ?thesis by blast
    next
      case 2
      then obtain ps ss where "cs = ps @ sub @ ss" using Cons.IH by blast
      then have "c # cs = (c # ps) @ sub @ ss" by simp
      then show ?thesis by blast
    qed
  next
    assume "\<exists>ps ss. c # cs = ps @ sub @ ss"
    then obtain ps ss where eq: "c # cs = ps @ sub @ ss" by blast
    show "contains sub (c # cs)"
    proof (cases ps)
      case Nil
      then have "take (length sub) (c # cs) = sub" using eq by simp
      then show ?thesis by simp
    next
      case (Cons p ps')
      then have "cs = ps' @ sub @ ss" using eq by simp
      then have "contains sub cs" using Cons.IH by blast
      then show ?thesis by simp
    qed
  qed
qed

section \<open>The fallback classifier\<close>

lemma reasoner_types_Nil_iff:
  "reasoner_types r onto = [] \<longleftrightarrow>
     \<not> isinstance_recette onto r RecetteCarnee \<and>
     \<not> isinstance_recette onto r RecetteVegane \<and>
     \<not> isinstance_recette onto r RecetteVegetarienne \<and>
     \<not> isinstance_recette onto r RecetteSansGluten"
  by (simp add: reasoner_types_def)

lemma get_inferred_types_fallback:
  "reasoner_types r onto = [] \<Longrightarrow> get_inferred_types r onto = fallback_types r onto"
  by (simp add: get_inferred_types_def)

lemma CarneeL_fallback:
  "CarneeL \<in> set (fallback_types r onto) \<longleftrightarrow>
     (\<exists>ing \<in> set (aPourIngredient r). isinstance onto ing Viande)"
  by (simp add: fallback_types_def Let_def list_ex_iff)

lemma VeganeL_fallback:
  "VeganeL \<in> set (fallback_types r onto) \<longleftrightarrow>
     \<not> (\<exists>ing \<in> set (aPourIngredient r). isinstance onto ing ProduitAnimal)"
  by (simp add: fallback_types_def Let_def list_ex_iff)

lemma VegetarienneL_fallback:
  "VegetarienneL \<in> set (fallback_types r onto) \<longleftrightarrow>
     \<not> (\<exists>ing \<in> set (aPourIngredient r).
           isinstance onto ing Viande \<or> isinstance onto ing ProduitMarin)"
  by (simp add: fallback_types_def Let_def list_ex_iff)

lemma SansGlutenL_fallback:
  "SansGlutenL \<in> set (fallback_types r onto) \<longleftrightarrow>
     \<not> (\<exists>ing \<in> set (aPourIngredient r). isinstance onto ing CerealeAvecGluten)"
  by (simp add: fallback_types_def Let_def list_ex_iff)

lemma fallback_types_labels:
  "set (fallback_types r onto) \<subseteq> {CarneeL, VeganeL, VegetarienneL, SansGlutenL}"
  by (auto simp add: fallback_types_def Let_def)

lemma fallback_types_distinct: "distinct (fallback_types r onto)"
  by (simp add: fallback_types_def Let_def)

section \<open>Applying the closure\<close>

lemma apply_closure_declared:
  "onto_aPourIngredient onto = Some p \<Longrightarrow> aPourIngredient r \<noteq> [] \<Longrightarrow>
   apply_closure_to_recipe r onto =
     ((remove_existing_aPourIngredient_closure r onto)
        \<lparr>is_a := is_a (remove_existing_aPourIngredient_closure r onto) @
                  [Restriction p ONLY (OneOf (aPourIngredient r))]\<rparr>, True)"
  by (simp add: apply_closure_to_recipe_def only_def Let_def)

lemma apply_closure_empty:
  "aPourIngredient r = [] \<Longrightarrow>
   apply_closure_to_recipe r onto = (remove_existing_aPourIngredient_closure r onto, False)"
  by (simp add: apply_closure_to_recipe_def Let_def)

lemma apply_closure_raised:
  "only (onto_aPourIngredient onto) (OneOf (aPourIngredient r)) = Inl e \<Longrightarrow>
   apply_closure_to_recipe r onto = (remove_existing_aPourIngredient_closure r onto, False)"
  by (simp add: apply_closure_to_recipe_def Let_def)

lemma only_Inl_iff: "(\<exists>e. only q x = Inl e) \<longleftrightarrow> q = None"
  by (cases q) (simp_all add: only_def)

lemma apply_closure_undeclared:
  "onto_aPourIngredient onto = None \<Longrightarrow> apply_closure_to_recipe r onto = (r, False)"
proof -
  assume n: "onto_aPourIngredient onto = None"
  have "\<And>x. \<not> is_aPourIngredient_restriction onto x"
  proof -
    fix x show "\<not> is_aPourIngredient_restriction onto x" using n by (cases x) simp_all
  qed
  then have "is_a (remove_existing_aPourIngredient_closure r onto) = is_a r"
    by (simp add: is_a_remove_existing)
  then have "remove_existing_aPourIngredient_closure r onto = r"
    by (simp add: remove_existing_aPourIngredient_closure_def)
  then show ?thesis
    using n by (simp add: apply_closure_to_recipe_def only_def Let_def)
qed

lemma is_a_apply_closure:
  "is_a (fst (apply_closure_to_recipe r onto)) =
     filter (\<lambda>x. \<not> is_aPourIngredient_restriction onto x) (is_a r) @
     (case onto_aPourIngredient onto of
        None \<Rightarrow> []
      | Some p \<Rightarrow> if aPourIngredient r = [] then []
                  else [Restriction p ONLY (OneOf (aPourIngredient r))])"
  by (simp add: apply_closure_to_recipe_def only_def Let_def is_a_remove_existing
      split: option.splits)

lemma aPourIngredient_apply_closure:
  "aPourIngredient (fst (apply_closure_to_recipe r onto)) = aPourIngredient r"
  by (simp add: apply_closure_to_recipe_def only_def Let_def aPourIngredient_remove_existing
      split: option.splits)

lemma recette_name_apply_closure:
  "recette_name (fst (apply_closure_to_recipe r onto)) = recette_name r"
  by (simp add: apply_closure_to_recipe_def only_def Let_def
      remove_existing_aPourIngredient_closure_def split: option.splits)

lemma restrictions_apply_closure:
  "filter (is_aPourIngredient_restriction onto) (is_a (fst (apply_closure_to_recipe r onto))) =
     (case onto_aPourIngredient onto of
        None \<Rightarrow> []
      | Some p \<Rightarrow> if aPourIngredient r = [] then []
                  else [Restriction p ONLY (OneOf (aPourIngredient r))])"
  by (simp add: is_a_apply_closure split: option.splits)

lemma others_apply_closure:
  "filter (\<lambda>x. \<not> is_aPourIngredient_restriction onto x)
      (is_a (fst (apply_closure_to_recipe r onto))) =
   filter (\<lambda>x. \<not> is_aPourIngredient_restriction onto x) (is_a r)"
  by (simp add: is_a_apply_closure split: option.splits)

lemma snd_apply_closure:
  "snd (apply_closure_to_recipe r onto) \<longleftrightarrow>
     aPourIngredient r \<noteq> [] \<and> onto_aPourIngredient onto \<noteq> None"
  by (simp add: apply_closure_to_recipe_def only_def Let_def split: option.splits)

lemma apply_closure_twice:
  "fst (apply_closure_to_recipe (fst (apply_closure_to_recipe r onto)) onto) =
   fst (apply_closure_to_recipe r onto)"
proof -
  let ?r1 = "fst (apply_closure_to_recipe r onto)"
  let ?r2 = "fst (apply_closure_to_recipe ?r1 onto)"
  have "is_a ?r2 = is_a ?r1"
    by (simp add: is_a_apply_closure [of ?r1] others_apply_closure
        aPourIngredient_apply_closure is_a_apply_closure [of r] split: option.splits)
  moreover have "aPourIngredient ?r2 = aPourIngredient ?r1"
    by (simp add: aPourIngredient_apply_closure)
  moreover have "recette_name ?r2 = recette_name ?r1"
    by (simp add: recette_name_apply_closure)
  ultimately show ?thesis by simp
qed

lemma apply_closure_loop_eq:
  "apply_closure_loop onto rs count =
     (map (\<lambda>r. fst (apply_closure_to_recipe r onto)) rs,
      count + int (length (filter (\<lambda>r. snd (apply_closure_to_recipe r onto)) rs)))"
proof (induction rs arbitrary: count)
  case Nil
  show ?case by simp
next
  case (Cons r rs)
  obtain r' ok where a: "apply_closure_to_recipe r onto = (r', ok)"
    by (cases "apply_closure_to_recipe r onto")
  show ?case
    using a Cons.IH [of "if ok then count + 1 else count"] by simp
qed

section \<open>Claims\<close>

text \<open>
  Claim C1. The fallback classifier gives four independent labels from the ingredient
  list: Carnivorous iff some ingredient is a Viande, Vegan iff no ingredient is a
  ProduitAnimal, Vegetarian iff no ingredient is a Viande or a ProduitMarin, GlutenFree
  iff no ingredient is a CerealeAvecGluten. It gives no other label and none twice, it
  is what \<open>get_inferred_types\<close> returns for a recipe without a class from the reasoner,
  and where ProduitAnimal is the union of Viande, ProduitMarin, ProduitLaitier and Oeuf
  on the recipe's ingredients, Vegan holds iff no ingredient is in one of the four.
\<close>

theorem fallback_classifier_labels:
  "(CarneeL \<in> set (fallback_types r onto) \<longleftrightarrow>
      (\<exists>ing \<in> set (aPourIngredient r). isinstance onto ing Viande)) \<and>
   (VeganeL \<in> set (fallback_types r onto) \<longleftrightarrow>
      \<not> (\<exists>ing \<in> set (aPourIngredient r). isinstance onto ing ProduitAnimal)) \<and>
   (VegetarienneL \<in> set (fallback_types r onto) \<longleftrightarrow>
      \<not> (\<exists>ing \<in> set (aPourIngredient r).
            isinstance onto ing Viande \<or> isinstance onto ing ProduitMarin)) \<and>
   (SansGlutenL \<in> set (fallback_types r onto) \<longleftrightarrow>
      \<not> (\<exists>ing \<in> set (aPourIngredient r). isinstance onto ing CerealeAvecGluten)) \<and>
   set (fallback_types r onto) \<subseteq> {CarneeL, VeganeL, VegetarienneL, SansGlutenL} \<and>
   distinct (fallback_types r onto) \<and>
   (reasoner_types r onto = [] \<longrightarrow> get_inferred_types r onto = fallback_types r onto) \<and>
   ((\<forall>ing \<in> set (aPourIngredient r).
       isinstance onto ing ProduitAnimal \<longleftrightarrow>
         isinstance onto ing Viande \<or> isinstance onto ing ProduitMarin \<or>
         isinstance onto ing ProduitLaitier \<or> isinstance onto ing Oeuf) \<longrightarrow>
    (VeganeL \<in> set (fallback_types r onto) \<longleftrightarrow>
       \<not> (\<exists>ing \<in> set (aPourIngredient r).
             isinstance onto ing Viande \<or> isinstance onto ing ProduitMarin \<or>
             isinstance onto ing ProduitLaitier \<or> isinstance onto ing Oeuf)))"
proof -
  have union: "(\<forall>ing \<in> set (aPourIngredient r).
       isinstance onto ing ProduitAnimal \<longleftrightarrow>
         isinstance onto ing Viande \<or> isinstance onto ing ProduitMarin \<or>
         isinstance onto ing ProduitLaitier \<or> isinstance onto ing Oeuf) \<longrightarrow>
    (VeganeL \<in> set (fallback_types r onto) \<longleftrightarrow>
       \<not> (\<exists>ing \<in> set (aPourIngredient r).
             isinstance onto ing Viande \<or> isinstance onto ing ProduitMarin \<or>
             isinstance onto ing ProduitLaitier \<or> isinstance onto ing Oeuf))"
    unfolding VeganeL_fallback by blast
  show ?thesis
    using CarneeL_fallback [of r onto] VeganeL_fallback [of r onto]
      VegetarienneL_fallback [of r onto] SansGlutenL_fallback [of r onto]
      fallback_types_labels [of r onto] fallback_types_distinct [of r onto]
      get_inferred_types_fallback [of r onto] union
    by blast
qed

theorem fallback_classifier_labels_witness:
  "reasoner_types gateau_chocolat spec_onto = [] \<and>
   list_all (\<lambda>ing. isinstance spec_onto ing ProduitAnimal \<longleftrightarrow>
         isinstance spec_onto ing Viande \<or> isinstance spec_onto ing ProduitMarin \<or>
         isinstance spec_onto ing ProduitLaitier \<or> isinstance spec_onto ing Oeuf)
     (aPourIngredient gateau_chocolat) \<and>
   get_inferred_types gateau_chocolat spec_onto = fallback_types gateau_chocolat spec_onto \<and>
   fallback_types gateau_chocolat spec_onto = [VegetarienneL] \<and>
   VeganeL \<notin> set (fallback_types gateau_chocolat spec_onto)"
proof -
  have h1: "reasoner_types gateau_chocolat spec_onto = []"
    by (simp add: reasoner_types_def membership_defs default_data_defs)
  have h2: "\<forall>ing \<in> set (aPourIngredient gateau_chocolat).
       isinstance spec_onto ing ProduitAnimal \<longleftrightarrow>
         isinstance spec_onto ing Viande \<or> isinstance spec_onto ing ProduitMarin \<or>
         isinstance spec_onto ing ProduitLaitier \<or> isinstance spec_onto ing Oeuf"
    by (simp add: membership_defs default_data_defs)
  have v: "fallback_types gateau_chocolat spec_onto = [VegetarienneL]"
    by (simp add: fallback_types_def membership_defs default_data_defs)
  show ?thesis
    using fallback_classifier_labels [of gateau_chocolat spec_onto] h1 h2 v
    by (simp add: list_all_iff)
qed

text \<open>
  Claim C2. Applying the closure twice in a row gives the recipe that applying it once
  gives; after an application the recipe never holds more than one restriction on
  \<open>aPourIngredient\<close>; and on a non-empty ingredient list, with the property declared,
  both calls return true and leave exactly one such restriction, the enumeration of the
  recipe's ingredients.
\<close>

theorem closure_idempotent:
  "fst (apply_closure_to_recipe (fst (apply_closure_to_recipe r onto)) onto) =
     fst (apply_closure_to_recipe r onto) \<and>
   length (filter (is_aPourIngredient_restriction onto)
             (is_a (fst (apply_closure_to_recipe r onto)))) \<le> 1 \<and>
   (onto_aPourIngredient onto = Some p \<and> aPourIngredient r \<noteq> [] \<longrightarrow>
      snd (apply_closure_to_recipe r onto) \<and>
      snd (apply_closure_to_recipe (fst (apply_closure_to_recipe r onto)) onto) \<and>
      filter (is_aPourIngredient_restriction onto)
        (is_a (fst (apply_closure_to_recipe r onto))) =
        [Restriction p ONLY (OneOf (aPourIngredient r))] \<and>
      filter (is_aPourIngredient_restriction onto)
        (is_a (fst (apply_closure_to_recipe (fst (apply_closure_to_recipe r onto)) onto))) =
        [Restriction p ONLY (OneOf (aPourIngredient r))])"
proof (intro conjI impI)
  show "fst (apply_closure_to_recipe (fst (apply_closure_to_recipe r onto)) onto) =
     fst (apply_closure_to_recipe r onto)"
    by (rule apply_closure_twice)
  show "length (filter (is_aPourIngredient_restriction onto)
             (is_a (fst (apply_closure_to_recipe r onto)))) \<le> 1"
    by (simp add: restrictions_apply_closure split: option.splits)
next
  assume h: "onto_aPourIngredient onto = Some p \<and> aPourIngredient r \<noteq> []"
  show "snd (apply_closure_to_recipe r onto)"
    using h by (simp add: snd_apply_closure)
  show "snd (apply_closure_to_recipe (fst (apply_closure_to_recipe r onto)) onto)"
    using h by (simp add: snd_apply_closure aPourIngredient_apply_closure)
  show one: "filter (is_aPourIngredient_restriction onto)
        (is_a (fst (apply_closure_to_recipe r onto))) =
        [Restriction p ONLY (OneOf (aPourIngredient r))]"
    using h by (simp add: restrictions_apply_closure)
  show "filter (is_aPourIngredient_restriction onto)
        (is_a (fst (apply_closure_to_recipe (fst (apply_closure_to_recipe r onto)) onto))) =
        [Restriction p ONLY (OneOf (aPourIngredient r))]"
    using one by (simp add: apply_closure_twice)
qed

theorem closure_idempotent_witness:
  "onto_aPourIngredient spec_onto = Some ''aPourIngredient'' \<and>
   aPourIngredient poulet_roti \<noteq> [] \<and>
   snd (apply_closure_to_recipe (fst (apply_closure_to_recipe poulet_roti spec_onto)) spec_onto) \<and>
   is_a (fst (apply_closure_to_recipe (fst (apply_closure_to_recipe poulet_roti spec_onto))
          spec_onto)) =
     [Named Recette, Restriction ''aPourIngredient'' ONLY (OneOf [poulet, tomate])]"
proof -
  have h: "onto_aPourIngredient spec_onto = Some ''aPourIngredient'' \<and>
      aPourIngredient poulet_roti \<noteq> []"
    by (simp add: spec_onto_def poulet_roti_def)
  have once: "is_a (fst (apply_closure_to_recipe poulet_roti spec_onto)) =
     [Named Recette, Restriction ''aPourIngredient'' ONLY (OneOf [poulet, tomate])]"
    by (simp add: is_a_apply_closure spec_onto_def poulet_roti_def)
  show ?thesis
    using closure_idempotent [of poulet_roti spec_onto "''aPourIngredient''"] h once
    by simp
qed

text \<open>
  Claim C3. After any edit of the ingredient list, applying the closure again leaves the
  entries of \<open>is_a\<close> that are no restriction on \<open>aPourIngredient\<close>, in their order,
  followed by the new restriction, whose enumeration is the current ingredient list (or by
  nothing when that list is empty): every earlier restriction on \<open>aPourIngredient\<close> is
  gone, however many there were, and the only one left is the new one.
\<close>

theorem closure_replaced_after_edit:
  assumes "onto_aPourIngredient onto = Some p"
  shows "is_a (fst (apply_closure_to_recipe (r\<lparr>aPourIngredient := ings\<rparr>) onto)) =
           filter (\<lambda>x. \<not> is_aPourIngredient_restriction onto x) (is_a r) @
           (if ings = [] then [] else [Restriction p ONLY (OneOf ings)]) \<and>
         filter (is_aPourIngredient_restriction onto)
           (is_a (fst (apply_closure_to_recipe (r\<lparr>aPourIngredient := ings\<rparr>) onto))) =
           (if ings = [] then [] else [Restriction p ONLY (OneOf ings)]) \<and>
         aPourIngredient (fst (apply_closure_to_recipe (r\<lparr>aPourIngredient := ings\<rparr>) onto)) =
           ings"
  using assms
  by (simp add: is_a_apply_closure restrictions_apply_closure aPourIngredient_apply_closure)

theorem closure_replaced_after_edit_witness:
  "onto_aPourIngredient spec_onto = Some ''aPourIngredient'' \<and>
   is_a (fst (apply_closure_to_recipe
     (\<lparr>recette_name = ''PouletRoti'',
       is_a = [Restriction ''aPourIngredient'' ONLY (OneOf [poulet]), Named Recette,
               Restriction ''aPourIngredient'' R_SOME (Named Viande),
               Restriction ''aPourIngredient'' ONLY (OneOf [poulet, tomate])],
       aPourIngredient = [poulet, tomate]\<rparr>\<lparr>aPourIngredient := [poulet, tomate, riz]\<rparr>)
     spec_onto)) =
   [Named Recette, Restriction ''aPourIngredient'' ONLY (OneOf [poulet, tomate, riz])]"
proof -
  have h: "onto_aPourIngredient spec_onto = Some ''aPourIngredient''"
    by (simp add: spec_onto_def)
  show ?thesis
    using closure_replaced_after_edit [OF h,
        where r = "\<lparr>recette_name = ''PouletRoti'',
       is_a = [Restriction ''aPourIngredient'' ONLY (OneOf [poulet]), Named Recette,
               Restriction ''aPourIngredient'' R_SOME (Named Viande),
               Restriction ''aPourIngredient'' ONLY (OneOf [poulet, tomate])],
       aPourIngredient = [poulet, tomate]\<rparr>" and ings = "[poulet, tomate, riz]"] h
    by simp
qed

text \<open>
  Claim C4. \<open>apply_closure_to_recipe\<close> returns true exactly when it has appended a new
  restriction to the recipe's \<open>is_a\<close>, which then is the enumeration of the ingredients.
  It returns false exactly when the ingredient list is empty or building the restriction
  raises; in both cases the recipe is left as the removal of the old closure leaves it,
  with nothing appended. The function has a result on every input: no exception leaves it.
\<close>

theorem apply_closure_result:
  "(snd (apply_closure_to_recipe r onto) \<longleftrightarrow>
      (\<exists>p. onto_aPourIngredient onto = Some p \<and>
           is_a (fst (apply_closure_to_recipe r onto)) =
             is_a (remove_existing_aPourIngredient_closure r onto) @
             [Restriction p ONLY (OneOf (aPourIngredient r))])) \<and>
   (snd (apply_closure_to_recipe r onto) \<longleftrightarrow>
      \<not> (aPourIngredient r = [] \<or>
         (\<exists>e. only (onto_aPourIngredient onto) (OneOf (aPourIngredient r)) = Inl e))) \<and>
   (aPourIngredient r = [] \<longrightarrow>
      apply_closure_to_recipe r onto =
        (remove_existing_aPourIngredient_closure r onto, False)) \<and>
   ((\<exists>e. only (onto_aPourIngredient onto) (OneOf (aPourIngredient r)) = Inl e) \<longrightarrow>
      apply_closure_to_recipe r onto =
        (remove_existing_aPourIngredient_closure r onto, False)) \<and>
   (\<exists>r' b. apply_closure_to_recipe r onto = (r', b))"
proof (intro conjI)
  show "snd (apply_closure_to_recipe r onto) \<longleftrightarrow>
      (\<exists>p. onto_aPourIngredient onto = Some p \<and>
           is_a (fst (apply_closure_to_recipe r onto)) =
             is_a (remove_existing_aPourIngredient_closure r onto) @
             [Restriction p ONLY (OneOf (aPourIngredient r))])"
    by (auto simp add: apply_closure_to_recipe_def only_def Let_def split: option.splits)
  show "snd (apply_closure_to_recipe r onto) \<longleftrightarrow>
      \<not> (aPourIngredient r = [] \<or>
         (\<exists>e. only (onto_aPourIngredient onto) (OneOf (aPourIngredient r)) = Inl e))"
    by (simp add: snd_apply_closure only_Inl_iff)
  show "aPourIngredient r = [] \<longrightarrow>
      apply_closure_to_recipe r onto =
        (remove_existing_aPourIngredient_closure r onto, False)"
    by (simp add: apply_closure_empty)
  show "(\<exists>e. only (onto_aPourIngredient onto) (OneOf (aPourIngredient r)) = Inl e) \<longrightarrow>
      apply_closure_to_recipe r onto =
        (remove_existing_aPourIngredient_closure r onto, False)"
    by (auto simp add: apply_closure_raised)
  show "\<exists>r' b. apply_closure_to_recipe r onto = (r', b)"
    by (cases "apply_closure_to_recipe r onto") blast
qed

theorem apply_closure_result_witness:
  "aPourIngredient (poulet_roti\<lparr>aPourIngredient := []\<rparr>) = [] \<and>
   apply_closure_to_recipe (poulet_roti\<lparr>aPourIngredient := []\<rparr>) spec_onto =
     (poulet_roti\<lparr>aPourIngredient := []\<rparr>, False) \<and>
   only (onto_aPourIngredient onto_without_property) (OneOf (aPourIngredient poulet_roti)) =
     Inl AttributeError \<and>
   apply_closure_to_recipe poulet_roti onto_without_property = (poulet_roti, False) \<and>
   snd (apply_closure_to_recipe poulet_roti spec_onto) \<and>
   is_a (fst (apply_closure_to_recipe poulet_roti spec_onto)) =
     [Named Recette, Restriction ''aPourIngredient'' ONLY (OneOf [poulet, tomate])]"
proof -
  have e: "aPourIngredient (poulet_roti\<lparr>aPourIngredient := []\<rparr>) = []"
    by simp
  have r1: "remove_existing_aPourIngredient_closure (poulet_roti\<lparr>aPourIngredient := []\<rparr>)
       spec_onto = poulet_roti\<lparr>aPourIngredient := []\<rparr>"
    by (simp add: remove_existing_aPourIngredient_closure_def poulet_roti_def spec_onto_def)
  have f: "only (onto_aPourIngredient onto_without_property)
       (OneOf (aPourIngredient poulet_roti)) = Inl AttributeError"
    by (simp add: only_def onto_without_property_def)
  have r2: "remove_existing_aPourIngredient_closure poulet_roti onto_without_property =
       poulet_roti"
    by (simp add: remove_existing_aPourIngredient_closure_def poulet_roti_def
        onto_without_property_def)
  have t: "snd (apply_closure_to_recipe poulet_roti spec_onto)"
    by (simp add: snd_apply_closure poulet_roti_def spec_onto_def)
  have r3: "is_a (remove_existing_aPourIngredient_closure poulet_roti spec_onto) =
       [Named Recette]"
    by (simp add: is_a_remove_existing poulet_roti_def)
  have a: "aPourIngredient poulet_roti = [poulet, tomate]"
    by (simp add: poulet_roti_def)
  have p: "onto_aPourIngredient spec_onto = Some ''aPourIngredient''"
    by (simp add: spec_onto_def)
  show ?thesis
    using apply_closure_result [of "poulet_roti\<lparr>aPourIngredient := []\<rparr>" spec_onto]
      apply_closure_result [of poulet_roti onto_without_property]
      apply_closure_result [of poulet_roti spec_onto] e r1 f r2 t r3 a p
    by auto
qed

text \<open>
  Claim C9. The batch operation applies the closure to every recipe of the list, in
  order, whatever the result on the recipes before it, and returns the number of recipes
  for which \<open>apply_closure_to_recipe\<close> returned true: the recipes with a non-empty
  ingredient list, when the ontology declares the property, and none otherwise.
\<close>

theorem apply_closure_to_all_recipes_count:
  "apply_closure_to_all_recipes onto recettes =
     (map (\<lambda>r. fst (apply_closure_to_recipe r onto)) recettes,
      int (length (filter (\<lambda>r. snd (apply_closure_to_recipe r onto)) recettes))) \<and>
   snd (apply_closure_to_all_recipes onto recettes) =
     int (length (filter (\<lambda>r. aPourIngredient r \<noteq> [] \<and> onto_aPourIngredient onto \<noteq> None)
                    recettes))"
  by (simp add: apply_closure_to_all_recipes_def apply_closure_loop_eq snd_apply_closure)

theorem apply_closure_to_all_recipes_count_witness:
  "snd (apply_closure_to_all_recipes spec_onto
          [poulet_roti\<lparr>aPourIngredient := []\<rparr>, poulet_roti, saumon_grille]) = 2 \<and>
   map is_a (fst (apply_closure_to_all_recipes spec_onto
          [poulet_roti\<lparr>aPourIngredient := []\<rparr>, poulet_roti, saumon_grille])) =
     [[Named Recette],
      [Named Recette, Restriction ''aPourIngredient'' ONLY (OneOf [poulet, tomate])],
      [Named Recette, Restriction ''aPourIngredient'' ONLY (OneOf [saumon, riz])]]"
  using apply_closure_to_all_recipes_count
    [of spec_onto "[poulet_roti\<lparr>aPourIngredient := []\<rparr>, poulet_roti, saumon_grille]"]
  by (simp add: snd_apply_closure is_a_apply_closure spec_onto_def poulet_roti_def
      saumon_grille_def)

text \<open>
  Claim C5. The compatibility evaluator: the Vegetarien profile holds iff no ingredient
  is a Viande or a ProduitMarin, Vegane iff none is a ProduitAnimal, SansGluten and
  AllergieGluten (the same test) iff none is a CerealeAvecGluten, AllergieLactose iff none
  is a ProduitLaitier. The result depends on the recipe through its ingredient list only:
  two recipes with the same ingredients get the same answer, whatever classes the reasoner
  has put into \<open>is_a\<close>.
\<close>

theorem check_compatibility_profiles:
  "(check_compatibility r ''Vegetarien'' onto \<longleftrightarrow>
      \<not> (\<exists>ing \<in> set (aPourIngredient r).
            isinstance onto ing Viande \<or> isinstance onto ing ProduitMarin)) \<and>
   (check_compatibility r ''Vegane'' onto \<longleftrightarrow>
      \<not> (\<exists>ing \<in> set (aPourIngredient r). isinstance onto ing ProduitAnimal)) \<and>
   (check_compatibility r ''SansGluten'' onto \<longleftrightarrow>
      \<not> (\<exists>ing \<in> set (aPourIngredient r). isinstance onto ing CerealeAvecGluten)) \<and>
   (check_compatibility r ''AllergieGluten'' onto \<longleftrightarrow>
      \<not> (\<exists>ing \<in> set (aPourIngredient r). isinstance onto ing CerealeAvecGluten)) \<and>
   (check_compatibility r ''AllergieLactose'' onto \<longleftrightarrow>
      \<not> (\<exists>ing \<in> set (aPourIngredient r). isinstance onto ing ProduitLaitier)) \<and>
   (aPourIngredient r' = aPourIngredient r \<longrightarrow>
      check_compatibility r' profile_name onto = check_compatibility r profile_name onto)"
  by (simp add: check_compatibility_def Let_def list_ex_iff)

theorem check_compatibility_profiles_witness:
  "aPourIngredient (poulet_roti\<lparr>is_a := [Named Recette, Named RecetteVegane]\<rparr>) =
     aPourIngredient poulet_roti \<and>
   \<not> check_compatibility (poulet_roti\<lparr>is_a := [Named Recette, Named RecetteVegane]\<rparr>)
       ''Vegane'' spec_onto \<and>
   \<not> check_compatibility poulet_roti ''Vegane'' spec_onto \<and>
   \<not> check_compatibility poulet_roti ''Vegetarien'' spec_onto \<and>
   check_compatibility poulet_roti ''SansGluten'' spec_onto \<and>
   check_compatibility poulet_roti ''AllergieLactose'' spec_onto"
proof -
  have h: "aPourIngredient (poulet_roti\<lparr>is_a := [Named Recette, Named RecetteVegane]\<rparr>) =
     aPourIngredient poulet_roti"
    by simp
  have a: "aPourIngredient poulet_roti = [poulet, tomate]"
    by (simp add: poulet_roti_def)
  show ?thesis
    using check_compatibility_profiles [of poulet_roti spec_onto
        "poulet_roti\<lparr>is_a := [Named Recette, Named RecetteVegane]\<rparr>" "''Vegane''"] h a
    by (simp add: membership_defs poulet_def tomate_def)
qed

text \<open>
  Claim C6, as amended. The AllergieArachide profile holds iff no ingredient that is an
  Oleagineux has a name whose lower-case form contains \<open>arachide\<close>.
\<close>

theorem check_compatibility_arachide:
  "check_compatibility r ''AllergieArachide'' onto \<longleftrightarrow>
     \<not> (\<exists>ing \<in> set (aPourIngredient r).
           isinstance onto ing Oleagineux \<and>
           (\<exists>ps ss. lower (name ing) = ps @ ''arachide'' @ ss))"
  by (simp add: check_compatibility_def Let_def list_ex_iff contains_iff)

theorem check_compatibility_arachide_witness:
  "\<not> check_compatibility
       \<lparr>recette_name = ''Satay'', is_a = [Named Recette],
        aPourIngredient = [poulet, \<lparr>name = ''BeurreArachide'', ing_is_a = [Oleagineux]\<rparr>]\<rparr>
       ''AllergieArachide'' spec_onto \<and>
   lower ''BeurreArachide'' = ''beurre'' @ ''arachide'' @ ''''"
proof -
  have l: "lower ''BeurreArachide'' = ''beurre'' @ ''arachide'' @ ''''"
    by (simp add: lower_def lower_char_def)
  have "\<exists>ps ss. lower ''BeurreArachide'' = ps @ ''arachide'' @ ss"
    using l by blast
  then have "\<exists>ing \<in> set [poulet, \<lparr>name = ''BeurreArachide'', ing_is_a = [Oleagineux]\<rparr>].
           isinstance spec_onto ing Oleagineux \<and>
           (\<exists>ps ss. lower (name ing) = ps @ ''arachide'' @ ss)"
    by (simp add: membership_defs)
  then show ?thesis
    using check_compatibility_arachide
      [of "\<lparr>recette_name = ''Satay'', is_a = [Named Recette],
        aPourIngredient = [poulet, \<lparr>name = ''BeurreArachide'', ing_is_a = [Oleagineux]\<rparr>]\<rparr>"
        spec_onto] l
    by simp
qed

text \<open>
  Claim C6, as stated, fails: a recipe whose only ingredient is an Oleagineux named
  \<open>Peanut\<close> is compatible with the AllergieArachide profile, although the lower-case
  form of that name contains \<open>peanut\<close>.
\<close>

theorem check_compatibility_peanut_counterexample:
  "check_compatibility
     \<lparr>recette_name = ''Satay'', is_a = [Named Recette],
      aPourIngredient = [\<lparr>name = ''Peanut'', ing_is_a = [Oleagineux]\<rparr>]\<rparr>
     ''AllergieArachide'' spec_onto \<and>
   isinstance spec_onto \<lparr>name = ''Peanut'', ing_is_a = [Oleagineux]\<rparr> Oleagineux \<and>
   contains ''peanut'' (lower (name \<lparr>name = ''Peanut'', ing_is_a = [Oleagineux]\<rparr>))"
  by (simp add: check_compatibility_def membership_defs lower_def lower_char_def)

text \<open>
  Claim C7. For a profile name that is none of the six the code tests, the evaluator
  returns true for every recipe; the function has no failing branch.
\<close>

theorem check_compatibility_unknown_profile:
  "profile_name \<notin> {''Vegetarien'', ''Vegane'', ''SansGluten'', ''AllergieGluten'',
      ''AllergieLactose'', ''AllergieArachide''} \<Longrightarrow>
   check_compatibility r profile_name onto = True"
  by (simp add: check_compatibility_def Let_def)

theorem check_compatibility_unknown_profile_witness:
  "''Keto'' \<notin> {''Vegetarien'', ''Vegane'', ''SansGluten'', ''AllergieGluten'',
      ''AllergieLactose'', ''AllergieArachide''} \<and>
   check_compatibility poulet_roti ''Keto'' spec_onto = True"
proof -
  have h: "''Keto'' \<notin> {''Vegetarien'', ''Vegane'', ''SansGluten'', ''AllergieGluten'',
      ''AllergieLactose'', ''AllergieArachide''}"
    by simp
  show ?thesis
    using check_compatibility_unknown_profile [OF h, of poulet_roti spec_onto] h by simp
qed

text \<open>
  Claim C8. Where every ingredient of the recipe that is a Viande or a ProduitMarin is a
  ProduitAnimal, a recipe the fallback classifier marks Vegan is also marked Vegetarian.
\<close>

theorem vegan_implies_vegetarian:
  assumes "\<forall>ing \<in> set (aPourIngredient r).
             isinstance onto ing Viande \<or> isinstance onto ing ProduitMarin \<longrightarrow>
             isinstance onto ing ProduitAnimal"
    and "VeganeL \<in> set (fallback_types r onto)"
  shows "VegetarienneL \<in> set (fallback_types r onto)"
  using assms unfolding VeganeL_fallback VegetarienneL_fallback by blast

theorem vegan_implies_vegetarian_witness:
  "list_all (\<lambda>ing. isinstance spec_onto ing Viande \<or> isinstance spec_onto ing ProduitMarin \<longrightarrow>
      isinstance spec_onto ing ProduitAnimal) (aPourIngredient salade_lentilles) \<and>
   VeganeL \<in> set (fallback_types salade_lentilles spec_onto) \<and>
   VegetarienneL \<in> set (fallback_types salade_lentilles spec_onto)"
proof -
  have h1: "\<forall>ing \<in> set (aPourIngredient salade_lentilles).
      isinstance spec_onto ing Viande \<or> isinstance spec_onto ing ProduitMarin \<longrightarrow>
      isinstance spec_onto ing ProduitAnimal"
    by (simp add: membership_defs default_data_defs)
  have h2: "VeganeL \<in> set (fallback_types salade_lentilles spec_onto)"
    by (simp add: fallback_types_def membership_defs default_data_defs)
  show ?thesis
    using vegan_implies_vegetarian [OF h1 h2] h1 h2 by (simp add: list_all_iff)
qed

text \<open>
  Claim C10. A recipe without a class from the reasoner whose ingredients are one
  ProduitMarin (which the hierarchy makes a ProduitAnimal) and one CerealeAvecGluten,
  neither of them a Viande, gets no label at all: \<open>get_inferred_types\<close> returns the empty
  list.
\<close>

theorem get_inferred_types_empty:
  assumes "reasoner_types r onto = []"
    and "aPourIngredient r = [s, g]"
    and "isinstance onto s ProduitMarin" and "isinstance onto s ProduitAnimal"
    and "\<not> isinstance onto s Viande"
    and "isinstance onto g CerealeAvecGluten" and "\<not> isinstance onto g Viande"
  shows "get_inferred_types r onto = []"
  using assms by (simp add: get_inferred_types_def fallback_types_def Let_def)

theorem get_inferred_types_empty_witness:
  "reasoner_types \<lparr>recette_name = ''SaumonPane'', is_a = [Named Recette],
      aPourIngredient = [saumon, farine]\<rparr> spec_onto = [] \<and>
   isinstance spec_onto saumon ProduitMarin \<and> isinstance spec_onto saumon ProduitAnimal \<and>
   \<not> isinstance spec_onto saumon Viande \<and>
   isinstance spec_onto farine CerealeAvecGluten \<and> \<not> isinstance spec_onto farine Viande \<and>
   get_inferred_types \<lparr>recette_name = ''SaumonPane'', is_a = [Named Recette],
      aPourIngredient = [saumon, farine]\<rparr> spec_onto = []"
proof -
  have h1: "reasoner_types \<lparr>recette_name = ''SaumonPane'', is_a = [Named Recette],
      aPourIngredient = [saumon, farine]\<rparr> spec_onto = []"
    by (simp add: reasoner_types_def membership_defs)
  have h2: "aPourIngredient \<lparr>recette_name = ''SaumonPane'', is_a = [Named Recette],
      aPourIngredient = [saumon, farine]\<rparr> = [saumon, farine]"
    by simp
  have h3: "isinstance spec_onto saumon ProduitMarin"
    and h4: "isinstance spec_onto saumon ProduitAnimal"
    and h5: "\<not> isinstance spec_onto saumon Viande"
    and h6: "isinstance spec_onto farine CerealeAvecGluten"
    and h7: "\<not> isinstance spec_onto farine Viande"
    by (simp_all add: membership_defs saumon_def farine_def)
  show ?thesis
    using get_inferred_types_empty [OF h1 h2 h3 h4 h5 h6 h7] h1 h3 h4 h5 h6 h7 by simp
qed

end
